theory Spec2Isabelle
  imports Complex_Main
begin

section \<open>JavaScript values used by the quality controller\<close>

text \<open>
  JavaScript numbers are modelled as rationals with exact arithmetic. Every constant
  and every concrete input used below is a dyadic or small decimal value on which the
  comparisons of the source give the same answer in double precision.
  A value that may be \<open>undefined\<close> or \<open>null\<close> is an \<open>option\<close>, with \<open>None\<close> for both.
\<close>

type_synonym number = rat

text \<open>\<open>Array.prototype.indexOf\<close>: the first position of the element, or \<open>-1\<close>.\<close>

fun indexOf :: "'a list \<Rightarrow> 'a \<Rightarrow> int" where
  "indexOf [] x = - 1"
| "indexOf (y # ys) x =
     (if y = x then 0 else (let i = indexOf ys x in if i < 0 then - 1 else i + 1))"

text \<open>Reading \<open>xs[i]\<close>: \<open>undefined\<close> when the index is out of range.\<close>

fun elemAt :: "'a list \<Rightarrow> int \<Rightarrow> 'a option" where
  "elemAt [] i = None"
| "elemAt (x # xs) i = (if i = 0 then Some x else if i < 0 then None else elemAt xs (i - 1))"

text \<open>
  \<open>table[key] || fallback\<close> on an object literal whose values are \<open>null\<close> or truthy:
  a missing key (\<open>undefined\<close>) and a \<open>null\<close> value both select the fallback.
  The key is a possibly undefined string; \<open>undefined\<close> names no key of the tables below.
\<close>

definition lookup :: "(string \<times> 'v option) list \<Rightarrow> string option \<Rightarrow> 'v option" where
  "lookup table key =
     (case key of None \<Rightarrow> None
      | Some k \<Rightarrow> (case map_of table k of None \<Rightarrow> None | Some v \<Rightarrow> v))"

definition or_else :: "'v option \<Rightarrow> 'v option \<Rightarrow> 'v option" where
  "or_else a b = (case a of None \<Rightarrow> b | Some v \<Rightarrow> Some v)"

section \<open>Device detection (deviceDetection.js)\<close>

text \<open>
  The results of the three probes \<open>getWebGLCapabilities\<close>, \<open>estimateAvailableMemory\<close>
  and \<open>getNetworkQuality\<close> and the flag of react-device-detect are the inputs of the
  assessment. The string fields hold the literals the source compares them with
  (\<open>'HIGH'\<close>, \<open>'MEDIUM'\<close>, \<open>'LOW'\<close>, \<open>'NONE'\<close> for the GPU tier and \<open>'FAST'\<close>, \<open>'MEDIUM'\<close>,
  \<open>'SLOW'\<close>, \<open>'UNKNOWN'\<close> for the network).
\<close>

record webgl_info =
  supported :: bool
  tier :: string

record network_info =
  quality :: string

record device_info =
  isMobile :: bool
  webgl :: webgl_info
  estimatedMemory :: number
  network :: network_info

record loading_strategy =
  useProgressiveLoading :: bool
  showLoadingIndicator :: bool
  timeout :: nat
  retryAttempts :: nat
  preloadTextures :: bool

record assessment =
  deviceInfo :: device_info
  recommendedQuality :: "string option"
  modelPath :: "string option"
  loadingStrategy :: loading_strategy

definition modelPaths :: "(string \<times> string option) list" where
  "modelPaths =
     [(''none'', None),
      (''ultra-low'', Some ''/models/optimized/ynz-ultra-low.glb''),
      (''low'', Some ''/models/optimized/ynz-low.glb''),
      (''medium'', Some ''/models/optimized/ynz-medium.glb''),
      (''high'', Some ''/models/optimized/ynz-high.glb''),
      (''original'', Some ''/models/ynz.glb'')]"

definition getModelPath :: "string option \<Rightarrow> string option" where
  "getModelPath q = or_else (lookup modelPaths q) (lookup modelPaths (Some ''low''))"

definition getLoadingStrategy :: "string option \<Rightarrow> string \<Rightarrow> loading_strategy" where
  "getLoadingStrategy q networkQuality =
     \<lparr> useProgressiveLoading = (q \<noteq> Some ''none''),
       showLoadingIndicator = True,
       timeout = (if networkQuality = ''SLOW'' then 30000 else 15000),
       retryAttempts = (if networkQuality = ''SLOW'' then 1 else 2),
       preloadTextures = (q = Some ''high'' \<and> networkQuality = ''FAST'') \<rparr>"

text \<open>The first assignment chain of \<open>assessDeviceCapabilities\<close> (before the network step).\<close>

definition baseQuality :: "device_info \<Rightarrow> string" where
  "baseQuality d =
     (if \<not> supported (webgl d) then ''none''
      else if isMobile d then
        (if tier (webgl d) = ''HIGH'' \<and> estimatedMemory d > 3000 then ''medium''
         else if tier (webgl d) = ''MEDIUM'' \<or> estimatedMemory d > 2000 then ''low''
         else ''ultra-low'')
      else
        (if tier (webgl d) = ''HIGH'' then ''high''
         else if tier (webgl d) = ''MEDIUM'' then ''medium''
         else ''low''))"

definition assessLevels :: "string list" where
  "assessLevels = [''none'', ''ultra-low'', ''low'', ''medium'', ''high'']"

text \<open>The adjustment for a slow network: one level down when the index is above 1.\<close>

definition adjustForNetwork :: "string \<Rightarrow> string \<Rightarrow> string option" where
  "adjustForNetwork networkQuality q =
     (if networkQuality = ''SLOW'' then
        (let currentIndex = indexOf assessLevels q
         in if currentIndex > 1 then elemAt assessLevels (currentIndex - 1) else Some q)
      else Some q)"

definition assessDeviceCapabilities :: "device_info \<Rightarrow> assessment" where
  "assessDeviceCapabilities d =
     (let q = adjustForNetwork (quality (network d)) (baseQuality d)
      in \<lparr> deviceInfo = d,
           recommendedQuality = q,
           modelPath = getModelPath q,
           loadingStrategy = getLoadingStrategy q (quality (network d)) \<rparr>)"

text \<open>
  The tier one step below, in the words of the specification: the order is
  \<open>ultra-low < low < medium < high\<close>, and \<open>ultra-low\<close> and the sentinel \<open>none\<close> stay.
\<close>

definition stepDownSpec :: "string \<Rightarrow> string" where
  "stepDownSpec q =
     (if q = ''high'' then ''medium''
      else if q = ''medium'' then ''low''
      else if q = ''low'' then ''ultra-low''
      else q)"

text \<open>A desktop whose WebGL probe found no context: \<open>{ supported: false, tier: 'NONE' }\<close>.\<close>

definition unsupportedDesktop :: device_info where
  "unsupportedDesktop =
     \<lparr> isMobile = False, webgl = \<lparr> supported = False, tier = ''NONE'' \<rparr>,
       estimatedMemory = 8192, network = \<lparr> quality = ''UNKNOWN'' \<rparr> \<rparr>"

section \<open>Compression settings of the memory manager (modelMemoryManager.js)\<close>

record compression_settings =
  textureCompressionRatio :: number
  geometryOptimization :: bool
  materialSimplification :: bool
  enableDraco :: bool

definition compressionTable :: "(string \<times> compression_settings option) list" where
  "compressionTable =
     [(''ultra-low'', Some \<lparr> textureCompressionRatio = 0.25, geometryOptimization = True,
                             materialSimplification = True, enableDraco = False \<rparr>),
      (''low'', Some \<lparr> textureCompressionRatio = 0.5, geometryOptimization = True,
                       materialSimplification = True, enableDraco = True \<rparr>),
      (''medium'', Some \<lparr> textureCompressionRatio = 0.75, geometryOptimization = False,
                          materialSimplification = False, enableDraco = True \<rparr>),
      (''high'', Some \<lparr> textureCompressionRatio = 1.0, geometryOptimization = False,
                        materialSimplification = False, enableDraco = True \<rparr>)]"

text \<open>
  \<open>getCompressionSettings\<close> reads \<open>this.deviceCapabilities.recommendedQuality\<close>, which no
  call changes, so the quality is a parameter. The fallback operand of \<open>||\<close> calls the
  method again on the same object and reads the property \<open>'low'\<close> of what that call
  returns; a settings record has no such property, so that read gives \<open>undefined\<close>.
  The outer \<open>option\<close> is the result of the call: \<open>None\<close> when the call does not return
  (the recursion never ends; the engine stops it with a stack overflow).
\<close>

partial_function (option) getCompressionSettings ::
  "string option \<Rightarrow> compression_settings option option" where
  "getCompressionSettings q =
     (case lookup compressionTable q of
        Some s \<Rightarrow> Some (Some s)
      | None \<Rightarrow> Option.bind (getCompressionSettings q) (\<lambda>r. Some None))"

section \<open>Runtime performance monitor (phoenixPerformanceMonitor.js)\<close>

record thresholds =
  minFPS :: number
  maxRenderTime :: number
  maxMemoryMB :: number
  maxInteractionLatency :: number

definition baseThresholds :: "(string \<times> thresholds option) list" where
  "baseThresholds =
     [(''ultra-low'', Some \<lparr> minFPS = 20, maxRenderTime = 50, maxMemoryMB = 50,
                             maxInteractionLatency = 200 \<rparr>),
      (''low'', Some \<lparr> minFPS = 25, maxRenderTime = 40, maxMemoryMB = 100,
                       maxInteractionLatency = 150 \<rparr>),
      (''medium'', Some \<lparr> minFPS = 35, maxRenderTime = 28, maxMemoryMB = 150,
                          maxInteractionLatency = 100 \<rparr>),
      (''high'', Some \<lparr> minFPS = 50, maxRenderTime = 20, maxMemoryMB = 200,
                        maxInteractionLatency = 50 \<rparr>)]"

definition calculateThresholds :: "string option \<Rightarrow> thresholds option" where
  "calculateThresholds q =
     or_else (lookup baseThresholds q) (lookup baseThresholds (Some ''low''))"

text \<open>
  One memory sample: \<open>modelMemory?.estimatedMemoryMB\<close> and \<open>browserMemory?.used\<close>, each
  absent when the object is \<open>null\<close>. \<open>x || 0\<close> is \<open>0\<close> for an absent value and \<open>x\<close> otherwise.
\<close>

record memory_sample =
  modelMemory :: "number option"
  browserMemory :: "number option"

record performance_snapshot =
  avgRenderTime :: number
  avgFPS :: number
  currentMemory :: "memory_sample option"

definition orZero :: "number option \<Rightarrow> number" where
  "orZero x = (case x of None \<Rightarrow> 0 | Some v \<Rightarrow> v)"

definition totalMemory :: "memory_sample \<Rightarrow> number" where
  "totalMemory m = orZero (modelMemory m) + orZero (browserMemory m)"

definition shouldRecommendQualityDowngrade :: "thresholds \<Rightarrow> performance_snapshot \<Rightarrow> bool" where
  "shouldRecommendQualityDowngrade th snap =
     (let issues = (0::nat);
          issues = (if avgRenderTime snap > maxRenderTime th * 1.2 then issues + 1 else issues);
          issues = (if avgFPS snap < minFPS th * 0.8 then issues + 1 else issues);
          issues = (case currentMemory snap of
                      None \<Rightarrow> issues
                    | Some m \<Rightarrow>
                        if totalMemory m > maxMemoryMB th * 1.1 then issues + 1 else issues)
      in issues \<ge> 2)"

text \<open>
  The number of indicators beyond the tier's own thresholds, in the words of the
  specification: render time, frame rate, memory.
\<close>

definition breachedIndicators :: "thresholds \<Rightarrow> performance_snapshot \<Rightarrow> nat" where
  "breachedIndicators th snap =
     (if avgRenderTime snap > maxRenderTime th then 1 else 0)
     + (if avgFPS snap < minFPS th then 1 else 0)
     + (case currentMemory snap of
          None \<Rightarrow> 0
        | Some m \<Rightarrow> if totalMemory m > maxMemoryMB th then 1 else 0)"

section \<open>Automatic tier changes (animationOptimizer.js, LODManager.jsx)\<close>

definition downgradeLevels :: "string list" where
  "downgradeLevels = [''high'', ''medium'', ''low'', ''ultra-low'']"

text \<open>\<open>indexOf\<close> with a possibly undefined argument: \<open>undefined\<close> is no element of a string array.\<close>

definition indexOfValue :: "string list \<Rightarrow> string option \<Rightarrow> int" where
  "indexOfValue xs v = (case v of None \<Rightarrow> - 1 | Some s \<Rightarrow> indexOf xs s)"

text \<open>
  \<open>handlePoorPerformance\<close> of the animation optimizer, as the new value of
  \<open>deviceAssessment.recommendedQuality\<close> (unchanged when the guard fails).
\<close>

definition handlePoorPerformance :: "string option \<Rightarrow> string option" where
  "handlePoorPerformance rq =
     (let currentIndex = indexOfValue downgradeLevels rq
      in if currentIndex < int (length downgradeLevels) - 1
         then elemAt downgradeLevels (currentIndex + 1)
         else rq)"

text \<open>\<open>x || 'low'\<close> on a possibly undefined string: the empty string is falsy too.\<close>

definition orLow :: "string option \<Rightarrow> string" where
  "orLow v = (case v of None \<Rightarrow> ''low'' | Some s \<Rightarrow> if s = [] then ''low'' else s)"

text \<open>The helper \<open>getModelPath(quality, modelType)\<close> of the LOD manager.\<close>

definition lodModelPaths :: "(string \<times> (string \<times> string option) list) list" where
  "lodModelPaths =
     [(''ynz'',
        [(''ultra-low'', Some ''/models/optimized/ynz-ultra-low.glb''),
         (''low'', Some ''/models/optimized/ynz-low.glb''),
         (''medium'', Some ''/models/optimized/ynz-medium.glb''),
         (''high'', Some ''/models/optimized/ynz-high.glb'')]),
      (''phoenix'',
        [(''ultra-low'', Some ''/models/optimized/phoenix-ultra-low.glb''),
         (''low'', Some ''/models/optimized/phoenix-low.glb''),
         (''medium'', Some ''/models/optimized/phoenix-medium.glb''),
         (''high'', Some ''/models/optimized/phoenix-high.glb'')])]"

definition lodGetModelPath :: "string option \<Rightarrow> string \<Rightarrow> string option" where
  "lodGetModelPath q modelType =
     (let paths = (case map_of lodModelPaths modelType of
                     None \<Rightarrow> (case map_of lodModelPaths ''ynz'' of None \<Rightarrow> [] | Some t \<Rightarrow> t)
                   | Some t \<Rightarrow> t)
      in or_else (lookup paths q) (lookup paths (Some ''low'')))"

text \<open>
  The state of \<open>OptimizedModelLoader\<close> that its two automatic tier changes read and
  write: the assessment's quality and path, the retry counter, the configured number
  of retries and the error message.
\<close>

record lod_loader =
  lodQuality :: "string option"
  lodModelPath :: "string option"
  retryCount :: nat
  lodRetryAttempts :: nat
  lodError :: "string option"
  lodProgress :: number

definition handleLoadingError :: "string \<Rightarrow> lod_loader \<Rightarrow> string \<Rightarrow> lod_loader" where
  "handleLoadingError modelType l errorType =
     (if retryCount l < (if lodRetryAttempts l = 0 then 1 else lodRetryAttempts l) then
        (let currentIndex = indexOf downgradeLevels (orLow (lodQuality l));
             fallbackQuality =
               elemAt downgradeLevels (min (currentIndex + 1) (int (length downgradeLevels) - 1))
         in l\<lparr> retryCount := retryCount l + 1,
               lodQuality := fallbackQuality,
               lodModelPath := lodGetModelPath fallbackQuality modelType,
               lodError := None,
               lodProgress := 0 \<rparr>)
      else l\<lparr> lodError := Some (''Failed to load 3D model: '' @ errorType) \<rparr>)"

text \<open>
  One step of the downgrade inside \<open>checkPerformance\<close>, taken after three consecutive
  seconds below 70 percent of the target frame rate, on the assessment that the running
  loop holds (the effect starts the loop only with \<open>performanceSettings.maxFPS\<close> and a
  renderer).
\<close>

definition performanceDowngrade :: "string \<Rightarrow> lod_loader \<Rightarrow> lod_loader" where
  "performanceDowngrade modelType l =
     (let currentIndex = indexOf downgradeLevels (orLow (lodQuality l))
      in if currentIndex < int (length downgradeLevels) - 1 then
           (let lowerQuality = elemAt downgradeLevels (currentIndex + 1)
            in l\<lparr> lodQuality := lowerQuality,
                  lodModelPath := lodGetModelPath lowerQuality modelType \<rparr>)
         else l)"

section \<open>Asset cache (modelMemoryManager.js)\<close>

text \<open>
  Callers pass one of the three priority literals, the keys of \<open>priorityOrder\<close>.
  The payload of an entry is kept as what \<open>updateMemoryUsage\<close> counts in it: the number
  of nodes and, for each material, the number of its texture slots that are set
  (each absent when the model has no \<open>nodes\<close> or no \<open>materials\<close> object).
\<close>

datatype priority = Low | Normal | High

record model_data =
  nodes :: "nat option"
  materials :: "nat list option"

record cache_entry =
  data :: model_data
  path :: string
  memoryUsage :: number
  loadTime :: number
  lastAccessed :: int
  priority :: priority

record memory_usage =
  totalGeometries :: nat
  totalMaterials :: nat
  totalTextures :: nat
  estimatedMemoryMB :: number

text \<open>
  A JavaScript \<open>Map\<close> keeps its keys in insertion order: an association list with
  \<open>set\<close> replacing in place or appending, and \<open>delete\<close> removing the key.
\<close>

type_synonym ('k, 'v) jsmap = "('k \<times> 'v) list"

definition mapHas :: "('k, 'v) jsmap \<Rightarrow> 'k \<Rightarrow> bool" where
  "mapHas m k = (map_of m k \<noteq> None)"

fun mapSet :: "('k, 'v) jsmap \<Rightarrow> 'k \<Rightarrow> 'v \<Rightarrow> ('k, 'v) jsmap" where
  "mapSet [] k v = [(k, v)]"
| "mapSet ((k', v') # m) k v = (if k' = k then (k, v) # m else (k', v') # mapSet m k v)"

definition mapDelete :: "('k, 'v) jsmap \<Rightarrow> 'k \<Rightarrow> ('k, 'v) jsmap" where
  "mapDelete m k = filter (\<lambda>kv. fst kv \<noteq> k) m"

text \<open>
  The fields of the manager that the cache operations use. \<open>loadingPromises\<close> maps a
  path to the identity of the promise stored for it.
\<close>

record manager =
  loadedModels :: "(string, cache_entry) jsmap"
  loadingPromises :: "(string, nat) jsmap"
  usage :: memory_usage
  maxCacheSize :: number

text \<open>\<open>Math.round\<close>: the nearest integer, halves upwards.\<close>

definition mathRound :: "number \<Rightarrow> number" where
  "mathRound x = of_int \<lfloor>x + 1 / 2\<rfloor>"

definition getCurrentMemoryUsage :: "manager \<Rightarrow> number" where
  "getCurrentMemoryUsage m =
     foldl (\<lambda>total model. total + memoryUsage model) 0 (map snd (loadedModels m))"

definition updateMemoryUsage :: "manager \<Rightarrow> manager" where
  "updateMemoryUsage m =
     (let models = map snd (loadedModels m);
          estimated = foldl (\<lambda>total model. total + memoryUsage model) 0 models;
          geometries = foldl (\<lambda>n model. case nodes (data model) of
                                 None \<Rightarrow> n | Some k \<Rightarrow> n + k) 0 models;
          mats = foldl (\<lambda>n model. case materials (data model) of
                                 None \<Rightarrow> n | Some ts \<Rightarrow> n + length ts) 0 models;
          textures = foldl (\<lambda>n model. case materials (data model) of
                                 None \<Rightarrow> n | Some ts \<Rightarrow> n + sum_list ts) 0 models
      in m\<lparr> usage := \<lparr> totalGeometries = geometries,
                        totalMaterials = mats,
                        totalTextures = textures,
                        estimatedMemoryMB = mathRound (estimated * 100) / 100 \<rparr> \<rparr>)"

text \<open>The field of \<open>getMemoryStats()\<close> that reports the memory in use.\<close>

definition getMemoryStats :: "manager \<Rightarrow> number" where
  "getMemoryStats m = estimatedMemoryMB (usage m)"

subsection \<open>The cache and the loads it has started\<close>

text \<open>
  The cache runs on one thread: each call and each promise settlement runs to its next
  suspension point before anything else does. Besides the manager, the state holds the
  loads started by \<open>loadModelInternal\<close> whose fetch has not settled (promise identity,
  path, priority) and the next unused promise identity.
\<close>

record world =
  mgr :: manager
  inflight :: "(nat \<times> string \<times> priority) list"
  fresh :: nat

text \<open>
  A cleanup observer, registered with \<open>registerCleanupCallback\<close>, is called with the
  payload of each model that is disposed. It is code outside the cache and may call
  back into it, so it is any function on the state: the net effect of its call.
\<close>

type_synonym observer = "model_data \<Rightarrow> world \<Rightarrow> world"

text \<open>
  \<open>disposeModel\<close>: the resources it releases are outside the manager; then every
  registered observer is called in turn with the payload.
\<close>

definition disposeModel :: "observer list \<Rightarrow> model_data \<Rightarrow> world \<Rightarrow> world" where
  "disposeModel cbs modelData w = foldl (\<lambda>w' callback. callback modelData w') w cbs"

subsection \<open>Eviction\<close>

definition priorityOrder :: "priority \<Rightarrow> int" where
  "priorityOrder p = (case p of High \<Rightarrow> 3 | Normal \<Rightarrow> 2 | Low \<Rightarrow> 1)"

text \<open>The comparator given to \<open>sort\<close> in \<open>performMemoryCleanup\<close>.\<close>

definition compareModels :: "string \<times> cache_entry \<Rightarrow> string \<times> cache_entry \<Rightarrow> int" where
  "compareModels a b =
     (let modelA = snd a; modelB = snd b
      in if priority modelA \<noteq> priority modelB
         then priorityOrder (priority modelB) - priorityOrder (priority modelA)
         else lastAccessed modelA - lastAccessed modelB)"

text \<open>
  \<open>Array.prototype.sort\<close> is stable and puts \<open>a\<close> after \<open>b\<close> when the comparator is
  positive on \<open>(a, b)\<close>: insertion from the right, each element placed before the first
  later element it does not have to follow.
\<close>

fun insertBy :: "('a \<Rightarrow> 'a \<Rightarrow> int) \<Rightarrow> 'a \<Rightarrow> 'a list \<Rightarrow> 'a list" where
  "insertBy cmp x [] = [x]"
| "insertBy cmp x (y # ys) = (if cmp x y > 0 then y # insertBy cmp x ys else x # y # ys)"

definition sortBy :: "('a \<Rightarrow> 'a \<Rightarrow> int) \<Rightarrow> 'a list \<Rightarrow> 'a list" where
  "sortBy cmp xs = foldr (insertBy cmp) xs []"

text \<open>
  The eviction loop over the sorted snapshot of the entries: stop once the running usage
  is at or below the target; else dispose the model (the observers run here, on the
  state as it is), delete its key from the map as it is then, and subtract its size
  from the running usage.
\<close>

fun evictLoop ::
  "observer list \<Rightarrow> number \<Rightarrow> number \<Rightarrow> (string \<times> cache_entry) list \<Rightarrow> world \<Rightarrow> world" where
  "evictLoop cbs targetUsage currentUsage [] w = w"
| "evictLoop cbs targetUsage currentUsage ((key, model) # rest) w =
     (if currentUsage \<le> targetUsage then w
      else
        (let w1 = disposeModel cbs (data model) w;
             w2 = w1\<lparr> mgr := (mgr w1)\<lparr> loadedModels := mapDelete (loadedModels (mgr w1)) key \<rparr> \<rparr>
         in evictLoop cbs targetUsage (currentUsage - memoryUsage model) rest w2))"

definition performMemoryCleanup :: "observer list \<Rightarrow> world \<Rightarrow> world" where
  "performMemoryCleanup cbs w =
     (let sortedModels = sortBy compareModels (loadedModels (mgr w));
          targetUsage = maxCacheSize (mgr w) * 0.6;
          currentUsage = getCurrentMemoryUsage (mgr w);
          w' = evictLoop cbs targetUsage currentUsage sortedModels w
      in w'\<lparr> mgr := updateMemoryUsage (mgr w') \<rparr>)"

definition ensureMemoryAvailable :: "observer list \<Rightarrow> world \<Rightarrow> world" where
  "ensureMemoryAvailable cbs w =
     (if getCurrentMemoryUsage (mgr w) > maxCacheSize (mgr w) * 0.8
      then performMemoryCleanup cbs w else w)"

text \<open>
  \<open>clearCache\<close>: every resident model is disposed, then both maps are cleared and the
  statistics refreshed. The models disposed are those resident when the call starts;
  whatever the observers do in between, the maps are empty afterwards.
\<close>

definition clearCache :: "observer list \<Rightarrow> world \<Rightarrow> world" where
  "clearCache cbs w =
     (let w1 = foldl (\<lambda>w' model. disposeModel cbs (data model) w') w
                 (map snd (loadedModels (mgr w)))
      in w1\<lparr> mgr := updateMemoryUsage ((mgr w1)\<lparr> loadedModels := [], loadingPromises := [] \<rparr>) \<rparr>)"

text \<open>The timer callback of \<open>startMemoryMonitoring\<close>.\<close>

definition monitorTick :: "observer list \<Rightarrow> world \<Rightarrow> world" where
  "monitorTick cbs w =
     (let w' = w\<lparr> mgr := updateMemoryUsage (mgr w) \<rparr>
      in if estimatedMemoryMB (usage (mgr w')) > maxCacheSize (mgr w')
         then performMemoryCleanup cbs w' else w')"

subsection \<open>Loading\<close>

text \<open>
  What a call of \<open>loadModelProgressive\<close> hands back: the cached payload, or the outcome
  of the load with the given promise identity. The function is \<open>async\<close>, so the caller
  holds a promise of its own that follows the one named here.
\<close>

datatype load_result = Cached model_data | Pending nat

text \<open>
  \<open>loadModelProgressive\<close> up to its first suspension: a resident path is touched and
  returned; a path with a stored promise returns that promise; otherwise
  \<open>loadModelInternal\<close> starts, running \<open>ensureMemoryAvailable\<close> (and with it any eviction
  and its observers) before it suspends, and only then is its promise stored under the
  path.
\<close>

definition loadModelProgressive ::
  "observer list \<Rightarrow> world \<Rightarrow> string \<Rightarrow> priority \<Rightarrow> int \<Rightarrow> load_result \<times> world" where
  "loadModelProgressive cbs w p pr now =
     (let m = mgr w
      in case map_of (loadedModels m) p of
           Some cachedModel \<Rightarrow>
             (Cached (data cachedModel),
              w\<lparr> mgr := m\<lparr> loadedModels :=
                     mapSet (loadedModels m) p (cachedModel\<lparr> lastAccessed := now \<rparr>) \<rparr> \<rparr>)
         | None \<Rightarrow>
             (case map_of (loadingPromises m) p of
                Some n \<Rightarrow> (Pending n, w)
              | None \<Rightarrow>
                  (let w1 = ensureMemoryAvailable cbs w; n = fresh w1
                   in (Pending n,
                       w1\<lparr> mgr := (mgr w1)\<lparr> loadingPromises :=
                                      mapSet (loadingPromises (mgr w1)) p n \<rparr>,
                           inflight := inflight w1 @ [(n, p, pr)],
                           fresh := n + 1 \<rparr>))))"

text \<open>The load with identity \<open>n\<close> leaves the unsettled loads.\<close>

fun removeLoad :: "nat \<Rightarrow> (nat \<times> string \<times> priority) list \<Rightarrow> (nat \<times> string \<times> priority) list" where
  "removeLoad n [] = []"
| "removeLoad n (e # es) = (if fst e = n then es else e # removeLoad n es)"

text \<open>
  The fetch of load \<open>n\<close> resolves with a payload whose measured size is \<open>mem\<close>:
  \<open>loadModelInternal\<close> caches the entry and refreshes the statistics, then the
  continuation in \<open>loadModelProgressive\<close> deletes the stored promise of the path.
\<close>

definition resolveLoad ::
  "world \<Rightarrow> nat \<Rightarrow> model_data \<Rightarrow> number \<Rightarrow> number \<Rightarrow> int \<Rightarrow> world" where
  "resolveLoad w n d mem lt now =
     (case map_of (inflight w) n of
        None \<Rightarrow> w
      | Some (p, pr) \<Rightarrow>
          (let m = mgr w;
               cacheEntry = \<lparr> data = d, path = p, memoryUsage = mem, loadTime = lt,
                              lastAccessed = now, priority = pr \<rparr>;
               m1 = updateMemoryUsage (m\<lparr> loadedModels := mapSet (loadedModels m) p cacheEntry \<rparr>);
               m2 = m1\<lparr> loadingPromises := mapDelete (loadingPromises m1) p \<rparr>
           in w\<lparr> mgr := m2, inflight := removeLoad n (inflight w) \<rparr>))"

text \<open>The fetch of load \<open>n\<close> fails: only the stored promise of the path is deleted.\<close>

definition rejectLoad :: "world \<Rightarrow> nat \<Rightarrow> world" where
  "rejectLoad w n =
     (case map_of (inflight w) n of
        None \<Rightarrow> w
      | Some (p, pr) \<Rightarrow>
          (let m = mgr w
           in w\<lparr> mgr := m\<lparr> loadingPromises := mapDelete (loadingPromises m) p \<rparr>,
                 inflight := removeLoad n (inflight w) \<rparr>))"

text \<open>
  A run of the cache is a list of events, each with the observers registered when it
  happens: a call of \<open>loadModelProgressive\<close>, the settlement of a fetch (resolved or
  rejected), a call of \<open>clearCache\<close>, the monitoring timer, a call of
  \<open>performMemoryCleanup\<close>.
\<close>

datatype event =
    Load string priority int
  | Resolve nat model_data number number int
  | Reject nat
  | ClearCache
  | MonitorTick
  | Evict

fun step :: "observer list \<Rightarrow> world \<Rightarrow> event \<Rightarrow> world" where
  "step cbs w (Load p pr now) = snd (loadModelProgressive cbs w p pr now)"
| "step cbs w (Resolve n d mem lt now) = resolveLoad w n d mem lt now"
| "step cbs w (Reject n) = rejectLoad w n"
| "step cbs w ClearCache = clearCache cbs w"
| "step cbs w MonitorTick = monitorTick cbs w"
| "step cbs w Evict = performMemoryCleanup cbs w"

definition exec :: "(observer list \<times> event) list \<Rightarrow> world \<Rightarrow> world" where
  "exec evs w = foldl (\<lambda>w' ce. step (fst ce) w' (snd ce)) w evs"

text \<open>A run during which no observer is registered.\<close>

definition unobserved :: "event list \<Rightarrow> (observer list \<times> event) list" where
  "unobserved evs = map (Pair []) evs"

text \<open>The manager as its constructor leaves it, for a given cache ceiling.\<close>

definition initial :: "number \<Rightarrow> world" where
  "initial cap =
     \<lparr> mgr = \<lparr> loadedModels = [], loadingPromises = [],
               usage = \<lparr> totalGeometries = 0, totalMaterials = 0, totalTextures = 0,
                         estimatedMemoryMB = 0 \<rparr>,
               maxCacheSize = cap \<rparr>,
       inflight = [], fresh = 0 \<rparr>"

text \<open>The unsettled fetches of a path, and their number.\<close>

definition fetchesOf :: "world \<Rightarrow> string \<Rightarrow> (nat \<times> string \<times> priority) list" where
  "fetchesOf w p = filter (\<lambda>e. fst (snd e) = p) (inflight w)"


subsection \<open>Conditions on a run, for one path\<close>





text \<open>
  What the bookkeeping maintains for a path in a run with both properties: no fetch and no stored
  promise, or one fetch whose promise is the stored one while the path is not resident.
\<close>

definition pathInvariant :: "string \<Rightarrow> world \<Rightarrow> bool" where
  "pathInvariant p w \<longleftrightarrow>
     (case fetchesOf w p of
        [] \<Rightarrow> map_of (loadingPromises (mgr w)) p = None
      | [e] \<Rightarrow> map_of (loadingPromises (mgr w)) p = Some (fst e)
               \<and> map_of (loadedModels (mgr w)) p = None
      | _ \<Rightarrow> False)"

text \<open>The statistics agree with the resident entries up to the rounding of the source.\<close>

definition statsConsistent :: "manager \<Rightarrow> bool" where
  "statsConsistent m \<longleftrightarrow>
     getMemoryStats m = mathRound (getCurrentMemoryUsage m * 100) / 100"

section \<open>Concrete inputs\<close>

definition payload :: model_data where
  "payload = \<lparr> nodes = Some 1, materials = Some [1] \<rparr>"

text \<open>
  Three models of 30 MB each, requested with priorities low, high, normal and cached at
  the same millisecond, in a cache of 100 MB; then a fourth request, which finds 90 MB
  above 80 percent of the ceiling and evicts down to 60 MB.
\<close>

definition evictionRun :: "(observer list \<times> event) list" where
  "evictionRun = unobserved
     [Load ''a'' Low 0, Load ''b'' High 0, Load ''c'' Normal 0,
      Resolve 0 payload 30 5 10, Resolve 1 payload 30 5 10, Resolve 2 payload 30 5 10,
      Load ''d'' Normal 20]"

text \<open>One model of 12000 bytes: a thousand vertices of three floats.\<close>

definition smallLoadRun :: "(observer list \<times> event) list" where
  "smallLoadRun = unobserved
     [Load ''a'' Normal 0, Resolve 0 payload (12000 / (1024 * 1024)) 5 10]"


text \<open>An observer that requests the path \<open>d\<close> whenever a model is disposed.\<close>

definition requestD :: observer where
  "requestD modelData w = snd (loadModelProgressive [] w ''d'' Low 15)"


text \<open>The eviction run with the observer registered at the fourth request.\<close>

definition reentrantRun :: "(observer list \<times> event) list" where
  "reentrantRun = butlast evictionRun @ [([requestD], Load ''d'' Normal 20)]"

definition mobileDevice :: "string \<Rightarrow> number \<Rightarrow> string \<Rightarrow> device_info" where
  "mobileDevice gpu memory net =
     \<lparr> isMobile = True, webgl = \<lparr> supported = True, tier = gpu \<rparr>,
       estimatedMemory = memory, network = \<lparr> quality = net \<rparr> \<rparr>"

definition desktopDevice :: "string \<Rightarrow> number \<Rightarrow> string \<Rightarrow> device_info" where
  "desktopDevice gpu memory net =
     \<lparr> isMobile = False, webgl = \<lparr> supported = True, tier = gpu \<rparr>,
       estimatedMemory = memory, network = \<lparr> quality = net \<rparr> \<rparr>"

text \<open>The loader state that \<open>OptimizedModelLoader\<close> builds from an assessment.\<close>

definition loaderFor :: "string \<Rightarrow> assessment \<Rightarrow> lod_loader" where
  "loaderFor modelType a =
     \<lparr> lodQuality = recommendedQuality a,
       lodModelPath = lodGetModelPath (recommendedQuality a) modelType,
       retryCount = 0,
       lodRetryAttempts = retryAttempts (loadingStrategy a),
       lodError = None,
       lodProgress = 0 \<rparr>"

definition highThresholds :: thresholds where
  "highThresholds = \<lparr> minFPS = 50, maxRenderTime = 20, maxMemoryMB = 200,
                       maxInteractionLatency = 50 \<rparr>"

definition slowFrames :: performance_snapshot where
  "slowFrames = \<lparr> avgRenderTime = 30, avgFPS = 30, currentMemory = None \<rparr>"


section \<open>Capability assessment\<close>

lemma recommendedQuality_assess:
  "recommendedQuality (assessDeviceCapabilities d)
     = adjustForNetwork (quality (network d)) (baseQuality d)"
  by (simp add: assessDeviceCapabilities_def Let_def)

lemma modelPath_assess:
  "modelPath (assessDeviceCapabilities d)
     = getModelPath (adjustForNetwork (quality (network d)) (baseQuality d))"
  by (simp add: assessDeviceCapabilities_def Let_def)

lemma loadingStrategy_assess:
  "loadingStrategy (assessDeviceCapabilities d)
     = getLoadingStrategy (adjustForNetwork (quality (network d)) (baseQuality d))
         (quality (network d))"
  by (simp add: assessDeviceCapabilities_def Let_def)

lemma baseQuality_cases:
  "baseQuality d \<in> {''none'', ''ultra-low'', ''low'', ''medium'', ''high''}"
  by (simp add: baseQuality_def)

lemma adjust_slow:
  "q \<in> {''none'', ''ultra-low'', ''low'', ''medium'', ''high''} \<Longrightarrow>
     adjustForNetwork ''SLOW'' q = Some (stepDownSpec q)"
  by (auto simp add: adjustForNetwork_def assessLevels_def stepDownSpec_def)

lemma unsupported_none:
  "recommendedQuality (assessDeviceCapabilities unsupportedDesktop) = Some ''none''"
  by (simp add: recommendedQuality_assess unsupportedDesktop_def adjustForNetwork_def
      baseQuality_def)

text \<open>
  C3. A device without WebGL is assessed as the sentinel tier \<open>none\<close>, and the claim has
  that tier mapped to no asset. In the code the table entry \<open>'none': null\<close> is falsy, so
  \<open>getModelPath\<close> falls through to the path of the \<open>low\<close> model, and the LOD loader
  starts from that path as well: the assessment of such a device carries a model to load.
\<close>

theorem unsupported_gets_low_asset:
  "recommendedQuality (assessDeviceCapabilities unsupportedDesktop) = Some ''none''
   \<and> modelPath (assessDeviceCapabilities unsupportedDesktop)
       = Some ''/models/optimized/ynz-low.glb''
   \<and> lodModelPath (loaderFor ''ynz'' (assessDeviceCapabilities unsupportedDesktop))
       = Some ''/models/optimized/ynz-low.glb''"
proof -
  have "getModelPath (Some ''none'') = Some ''/models/optimized/ynz-low.glb''"
    by (simp add: getModelPath_def lookup_def or_else_def modelPaths_def)
  moreover have "lodGetModelPath (Some ''none'') ''ynz'' = Some ''/models/optimized/ynz-low.glb''"
    by (simp add: lodGetModelPath_def lookup_def or_else_def lodModelPaths_def)
  moreover have "modelPath (assessDeviceCapabilities unsupportedDesktop)
      = getModelPath (recommendedQuality (assessDeviceCapabilities unsupportedDesktop))"
    by (simp add: recommendedQuality_assess modelPath_assess)
  ultimately show ?thesis
    by (simp add: unsupported_none loaderFor_def)
qed

text \<open>
  C4, as amended. A mobile device with WebGL, GPU tier \<open>HIGH\<close>, an estimated memory
  strictly above 3000 MB and a network that is not slow is recommended \<open>medium\<close>.
\<close>

theorem mobile_high_cap:
  assumes "isMobile d" and "supported (webgl d)" and "tier (webgl d) = ''HIGH''"
    and "estimatedMemory d > 3000" and "quality (network d) \<noteq> ''SLOW''"
  shows "recommendedQuality (assessDeviceCapabilities d) = Some ''medium''"
  using assms by (simp add: recommendedQuality_assess adjustForNetwork_def baseQuality_def)

text \<open>The theorem at a tablet with the default estimate of 3072 MB on a fast network.\<close>

theorem mobile_high_cap_witness:
  "isMobile (mobileDevice ''HIGH'' 3072 ''FAST'')
   \<and> supported (webgl (mobileDevice ''HIGH'' 3072 ''FAST''))
   \<and> tier (webgl (mobileDevice ''HIGH'' 3072 ''FAST'')) = ''HIGH''
   \<and> estimatedMemory (mobileDevice ''HIGH'' 3072 ''FAST'') > 3000
   \<and> quality (network (mobileDevice ''HIGH'' 3072 ''FAST'')) \<noteq> ''SLOW''
   \<and> recommendedQuality (assessDeviceCapabilities (mobileDevice ''HIGH'' 3072 ''FAST''))
       = Some ''medium''"
  using mobile_high_cap [of "mobileDevice ''HIGH'' 3072 ''FAST''"]
  by (simp add: mobileDevice_def)

text \<open>
  C4 as stated fails at exactly 3000 MB: the source compares with \<open>>\<close>, the first
  branch is not taken, and the second one gives \<open>low\<close>.
\<close>

theorem mobile_high_3000_is_low:
  "isMobile (mobileDevice ''HIGH'' 3000 ''FAST'')
   \<and> supported (webgl (mobileDevice ''HIGH'' 3000 ''FAST''))
   \<and> tier (webgl (mobileDevice ''HIGH'' 3000 ''FAST'')) = ''HIGH''
   \<and> estimatedMemory (mobileDevice ''HIGH'' 3000 ''FAST'') \<ge> 3000
   \<and> quality (network (mobileDevice ''HIGH'' 3000 ''FAST'')) \<noteq> ''SLOW''
   \<and> recommendedQuality (assessDeviceCapabilities (mobileDevice ''HIGH'' 3000 ''FAST''))
       = Some ''low''"
  by (simp add: mobileDevice_def recommendedQuality_assess adjustForNetwork_def baseQuality_def)

text \<open>
  C5, as amended. A desktop with WebGL and GPU tier \<open>LOW\<close> is recommended \<open>low\<close> whatever
  its memory when the network is not slow, and \<open>ultra-low\<close> when the network is slow.
\<close>

theorem desktop_low:
  assumes "\<not> isMobile d" and "supported (webgl d)" and "tier (webgl d) = ''LOW''"
  shows "recommendedQuality (assessDeviceCapabilities d)
           = (if quality (network d) = ''SLOW'' then Some ''ultra-low'' else Some ''low'')"
  using assms
  by (simp add: recommendedQuality_assess adjustForNetwork_def baseQuality_def assessLevels_def)

theorem desktop_low_witness:
  "\<not> isMobile (desktopDevice ''LOW'' 8192 ''UNKNOWN'')
   \<and> supported (webgl (desktopDevice ''LOW'' 8192 ''UNKNOWN''))
   \<and> tier (webgl (desktopDevice ''LOW'' 8192 ''UNKNOWN'')) = ''LOW''
   \<and> recommendedQuality (assessDeviceCapabilities (desktopDevice ''LOW'' 8192 ''UNKNOWN''))
       = Some ''low''"
  using desktop_low [of "desktopDevice ''LOW'' 8192 ''UNKNOWN''"]
  by (simp add: desktopDevice_def)

text \<open>C5 as stated fails on a slow network, where the step down applies to desktops too.\<close>

theorem desktop_low_slow_is_ultra_low:
  "\<not> isMobile (desktopDevice ''LOW'' 8192 ''SLOW'')
   \<and> supported (webgl (desktopDevice ''LOW'' 8192 ''SLOW''))
   \<and> tier (webgl (desktopDevice ''LOW'' 8192 ''SLOW'')) = ''LOW''
   \<and> recommendedQuality (assessDeviceCapabilities (desktopDevice ''LOW'' 8192 ''SLOW''))
       = Some ''ultra-low''"
  by (simp add: desktopDevice_def recommendedQuality_assess adjustForNetwork_def
      baseQuality_def assessLevels_def)

text \<open>
  C6. On a slow network the recommendation is one step below the recommendation the same
  probes give on any network that is not slow; \<open>ultra-low\<close> and \<open>none\<close> stay as they are.
\<close>

theorem slow_network_steps_down:
  assumes "quality (network d) = ''SLOW''" and "n \<noteq> ''SLOW''"
  shows "recommendedQuality (assessDeviceCapabilities d)
           = map_option stepDownSpec
               (recommendedQuality
                  (assessDeviceCapabilities (d\<lparr> network := (network d)\<lparr> quality := n \<rparr> \<rparr>)))"
proof -
  have "baseQuality (d\<lparr> network := (network d)\<lparr> quality := n \<rparr> \<rparr>) = baseQuality d"
    by (simp add: baseQuality_def)
  with assms(2)
  have "recommendedQuality
          (assessDeviceCapabilities (d\<lparr> network := (network d)\<lparr> quality := n \<rparr> \<rparr>))
        = Some (baseQuality d)"
    by (simp add: recommendedQuality_assess adjustForNetwork_def)
  with assms(1) show ?thesis
    using adjust_slow [OF baseQuality_cases [of d]]
    by (simp add: recommendedQuality_assess)
qed

theorem slow_network_steps_down_witness:
  "quality (network (desktopDevice ''HIGH'' 8192 ''SLOW'')) = ''SLOW''
   \<and> ''FAST'' \<noteq> ''SLOW''
   \<and> recommendedQuality (assessDeviceCapabilities (desktopDevice ''HIGH'' 8192 ''FAST''))
       = Some ''high''
   \<and> recommendedQuality (assessDeviceCapabilities (desktopDevice ''HIGH'' 8192 ''SLOW''))
       = Some ''medium''"
proof -
  have fast: "(desktopDevice ''HIGH'' 8192 ''SLOW'')
                \<lparr> network := (network (desktopDevice ''HIGH'' 8192 ''SLOW''))\<lparr> quality := ''FAST'' \<rparr> \<rparr>
              = desktopDevice ''HIGH'' 8192 ''FAST''"
    by (simp add: desktopDevice_def)
  have high: "recommendedQuality (assessDeviceCapabilities (desktopDevice ''HIGH'' 8192 ''FAST''))
       = Some ''high''"
    by (simp add: desktopDevice_def recommendedQuality_assess adjustForNetwork_def baseQuality_def)
  have slow: "quality (network (desktopDevice ''HIGH'' 8192 ''SLOW'')) = ''SLOW''"
    by (simp add: desktopDevice_def)
  from slow_network_steps_down [OF slow, of "''FAST''"] fast high slow show ?thesis
    by (simp add: stepDownSpec_def)
qed

section \<open>Compression settings\<close>

lemma getCompressionSettings_keyed:
  assumes "getCompressionSettings q = Some r"
  shows "lookup compressionTable q \<noteq> None"
proof (rule getCompressionSettings.raw_induct
         [where P = "\<lambda>q r. lookup compressionTable q \<noteq> None", OF _ assms])
  fix f q r
  assume ih: "\<And>q r. f q = Some r \<Longrightarrow> lookup compressionTable q \<noteq> None"
    and body: "(case lookup compressionTable q of
                  None \<Rightarrow> Option.bind (f q) (\<lambda>r. Some None)
                | Some s \<Rightarrow> Some (Some s)) = Some r"
  show "lookup compressionTable q \<noteq> None"
  proof (cases "lookup compressionTable q")
    case None
    with body obtain r' where "f q = Some r'"
      by (auto simp: bind_eq_Some_conv)
    from ih [OF this] None show ?thesis by simp
  next
    case (Some s)
    then show ?thesis by simp
  qed
qed

lemma getCompressionSettings_low:
  "getCompressionSettings (Some ''low'') = Some (lookup compressionTable (Some ''low''))"
  by (subst getCompressionSettings.simps) (simp add: lookup_def compressionTable_def)

text \<open>
  C10. The claim has \<open>getCompressionSettings\<close> return for every recommended quality. For
  the quality \<open>none\<close> of a device without WebGL the table has no entry, the fallback calls
  the method again with nothing changed, and the call never returns.
\<close>

theorem getCompressionSettings_none_diverges:
  "getCompressionSettings (recommendedQuality (assessDeviceCapabilities unsupportedDesktop))
     = None"
proof -
  have "lookup compressionTable (Some ''none'') = None"
    by (simp add: lookup_def compressionTable_def)
  then have "getCompressionSettings (Some ''none'') = None"
    using getCompressionSettings_keyed [of "Some ''none''"]
    by (cases "getCompressionSettings (Some ''none'')") auto
  then show ?thesis by (simp add: unsupported_none)
qed

section \<open>Degrade signal\<close>

lemma thresholds_positive:
  "calculateThresholds q = Some th \<Longrightarrow>
     0 < minFPS th \<and> 0 < maxRenderTime th \<and> 0 < maxMemoryMB th"
  by (cases q) (auto simp: calculateThresholds_def or_else_def lookup_def baseThresholds_def
      split: option.splits if_splits)

text \<open>
  C8. With the thresholds of any tier, the monitor recommends a downgrade only when at
  least two of the three indicators (average render time, average frame rate, memory)
  are beyond the tier's thresholds; one indicator alone never suffices.
\<close>

theorem downgrade_needs_two:
  assumes "calculateThresholds q = Some th" and "shouldRecommendQualityDowngrade th snap"
  shows "breachedIndicators th snap \<ge> 2"
proof -
  from thresholds_positive [OF assms(1)]
  have pos: "0 < minFPS th" "0 < maxRenderTime th" "0 < maxMemoryMB th" by simp_all
  have r: "avgRenderTime snap > maxRenderTime th * 1.2 \<Longrightarrow> avgRenderTime snap > maxRenderTime th"
    using pos(2) by simp
  have f: "avgFPS snap < minFPS th * 0.8 \<Longrightarrow> avgFPS snap < minFPS th"
    using pos(1) by simp
  have m: "\<And>x. x > maxMemoryMB th * 1.1 \<Longrightarrow> x > maxMemoryMB th"
    using pos(3) by simp
  from assms(2) show ?thesis
    unfolding shouldRecommendQualityDowngrade_def breachedIndicators_def Let_def
    using r f m by (auto split: option.splits if_splits)
qed

theorem downgrade_needs_two_witness:
  "calculateThresholds (Some ''high'') = Some highThresholds
   \<and> shouldRecommendQualityDowngrade highThresholds slowFrames
   \<and> breachedIndicators highThresholds slowFrames \<ge> 2"
proof -
  have a: "calculateThresholds (Some ''high'') = Some highThresholds"
    by (simp add: calculateThresholds_def or_else_def lookup_def baseThresholds_def
        highThresholds_def)
  have b: "shouldRecommendQualityDowngrade highThresholds slowFrames"
    by (simp add: shouldRecommendQualityDowngrade_def highThresholds_def slowFrames_def)
  from downgrade_needs_two [OF a b] a b show ?thesis by simp
qed

section \<open>Automatic tier changes\<close>

text \<open>
  C9. The claim has every automatic tier change move downward. The three changes look
  the current quality up in \<open>['high', 'medium', 'low', 'ultra-low']\<close>; for the tier \<open>none\<close>
  of a device without WebGL \<open>indexOf\<close> is \<open>-1\<close>, the guards let it pass, and the element
  after it is the first of the array: the tier becomes \<open>high\<close>.
\<close>

theorem none_tier_is_raised:
  "handlePoorPerformance (recommendedQuality (assessDeviceCapabilities unsupportedDesktop))
     = Some ''high''
   \<and> lodQuality (handleLoadingError ''ynz''
        (loaderFor ''ynz'' (assessDeviceCapabilities unsupportedDesktop)) ''timeout'')
     = Some ''high''
   \<and> lodQuality (performanceDowngrade ''ynz''
        (loaderFor ''ynz'' (assessDeviceCapabilities unsupportedDesktop)))
     = Some ''high''"
proof -
  have "handlePoorPerformance (Some ''none'') = Some ''high''"
    by (simp add: handlePoorPerformance_def indexOfValue_def downgradeLevels_def)
  moreover have "retryAttempts (loadingStrategy (assessDeviceCapabilities unsupportedDesktop)) = 2"
    by (simp add: loadingStrategy_assess getLoadingStrategy_def unsupportedDesktop_def)
  then have "lodQuality (handleLoadingError ''ynz''
        (loaderFor ''ynz'' (assessDeviceCapabilities unsupportedDesktop)) ''timeout'')
     = Some ''high''"
    by (simp add: handleLoadingError_def loaderFor_def unsupported_none Let_def orLow_def
        downgradeLevels_def)
  moreover have "lodQuality (performanceDowngrade ''ynz''
        (loaderFor ''ynz'' (assessDeviceCapabilities unsupportedDesktop)))
     = Some ''high''"
    by (simp add: performanceDowngrade_def loaderFor_def unsupported_none Let_def orLow_def
        downgradeLevels_def)
  ultimately show ?thesis by (simp add: unsupported_none)
qed

section \<open>Asset cache\<close>

subsection \<open>What the bookkeeping leaves unchanged\<close>

lemma foldl_add: "foldl (\<lambda>total model. total + f model) a xs = (a::rat) + sum_list (map f xs)"
  by (induction xs arbitrary: a) simp_all

lemma loadedModels_update [simp]: "loadedModels (updateMemoryUsage m) = loadedModels m"
  and loadingPromises_update [simp]: "loadingPromises (updateMemoryUsage m) = loadingPromises m"
  and maxCacheSize_update [simp]: "maxCacheSize (updateMemoryUsage m) = maxCacheSize m"
  by (simp_all add: updateMemoryUsage_def Let_def)

lemma getCurrent_update [simp]:
  "getCurrentMemoryUsage (updateMemoryUsage m) = getCurrentMemoryUsage m"
  by (simp add: getCurrentMemoryUsage_def)





lemma mapSet_touch:
  "map_of m k = Some e \<Longrightarrow> f e' = f e \<Longrightarrow>
     map (\<lambda>kv. f (snd kv)) (mapSet m k e') = map (\<lambda>kv. f (snd kv)) m"
  by (induction m) (auto split: if_splits)

subsection \<open>Eviction order\<close>

text \<open>
  C1. The claim has a low-priority entry evicted before a normal and a high one. The
  comparator of \<open>performMemoryCleanup\<close> returns \<open>priorityOrder[B] - priorityOrder[A]\<close>,
  which sorts high priority first, against the comment above the loop. With resident
  entries of priorities low, high, normal and equal access times, the eviction that one
  more request triggers removes the high-priority entry and keeps the low-priority one.
\<close>

theorem eviction_removes_high_first:
  "map (\<lambda>kv. (fst kv, priority (snd kv), lastAccessed (snd kv)))
       (loadedModels (mgr (exec (butlast evictionRun) (initial 100))))
     = [(''a'', Low, 10), (''b'', High, 10), (''c'', Normal, 10)]
   \<and> map fst (sortBy compareModels
                 (loadedModels (mgr (exec (butlast evictionRun) (initial 100)))))
     = [''b'', ''c'', ''a'']
   \<and> map (\<lambda>kv. (fst kv, priority (snd kv)))
       (loadedModels (mgr (exec evictionRun (initial 100))))
     = [(''a'', Low), (''c'', Normal)]"
  by code_simp

subsection \<open>Reported memory\<close>

lemma consistent_update: "statsConsistent (updateMemoryUsage m)"
  by (simp add: statsConsistent_def getMemoryStats_def)
    (simp add: updateMemoryUsage_def Let_def getCurrentMemoryUsage_def)

lemma consistent_promises [simp]:
  "statsConsistent (m\<lparr> loadingPromises := lp \<rparr>) = statsConsistent m"
  by (simp add: statsConsistent_def getMemoryStats_def getCurrentMemoryUsage_def)

lemma consistent_cleanup: "statsConsistent (mgr (performMemoryCleanup cbs w))"
  by (simp add: performMemoryCleanup_def Let_def consistent_update)

lemma consistent_ensure:
  "statsConsistent (mgr w) \<Longrightarrow> statsConsistent (mgr (ensureMemoryAvailable cbs w))"
  by (simp add: ensureMemoryAvailable_def consistent_cleanup)

lemma consistent_tick: "statsConsistent (mgr (monitorTick cbs w))"
  by (simp add: monitorTick_def Let_def consistent_update consistent_cleanup)

lemma consistent_clear: "statsConsistent (mgr (clearCache cbs w))"
  by (simp add: clearCache_def Let_def consistent_update)

lemma consistent_touch:
  assumes "statsConsistent m" and "map_of (loadedModels m) k = Some e"
  shows "statsConsistent
           (m\<lparr> loadedModels := mapSet (loadedModels m) k (e\<lparr> lastAccessed := now \<rparr>) \<rparr>)"
proof -
  have "map (\<lambda>kv. memoryUsage (snd kv)) (mapSet (loadedModels m) k (e\<lparr> lastAccessed := now \<rparr>))
        = map (\<lambda>kv. memoryUsage (snd kv)) (loadedModels m)"
    by (rule mapSet_touch [OF assms(2)]) simp
  then have "map memoryUsage (map snd (mapSet (loadedModels m) k (e\<lparr> lastAccessed := now \<rparr>)))
        = map memoryUsage (map snd (loadedModels m))"
    by (simp add: comp_def)
  with assms(1) show ?thesis
    by (simp add: statsConsistent_def getMemoryStats_def getCurrentMemoryUsage_def foldl_add)
qed

lemma consistent_step:
  assumes "statsConsistent (mgr w)"
  shows "statsConsistent (mgr (step cbs w e))"
proof (cases e)
  case (Load p pr now)
  with assms show ?thesis
    by (simp add: loadModelProgressive_def Let_def consistent_touch consistent_ensure
        split: option.splits)
next
  case (Resolve n d mem lt now)
  with assms show ?thesis
    by (simp add: resolveLoad_def Let_def consistent_update split: option.splits prod.splits)
next
  case (Reject n)
  with assms show ?thesis
    by (simp add: rejectLoad_def Let_def split: option.splits prod.splits)
next
  case ClearCache
  then show ?thesis by (simp add: consistent_clear)
next
  case MonitorTick
  then show ?thesis by (simp add: consistent_tick)
next
  case Evict
  then show ?thesis by (simp add: consistent_cleanup)
qed

lemma consistent_exec: "statsConsistent (mgr w) \<Longrightarrow> statsConsistent (mgr (exec evs w))"
  unfolding exec_def by (induction evs arbitrary: w) (simp_all add: consistent_step)

lemma consistent_initial: "statsConsistent (mgr (initial cap))"
proof -
  have "\<lfloor>1 / 2 :: rat\<rfloor> = 0" by (rule floor_unique) simp_all
  then show ?thesis
    by (simp add: statsConsistent_def initial_def getMemoryStats_def getCurrentMemoryUsage_def
        mathRound_def)
qed

text \<open>
  C2, as amended. After any run of the cache from its initial state, whatever observers
  are registered, the memory that the statistics report is \<open>Math.round(sum * 100) / 100\<close>
  for the sum of the sizes of the resident entries: the sum rounded to two decimals,
  not the sum itself. Both sides add the sizes in the order of the map, so the equation
  does not depend on how the additions round.
\<close>

theorem stats_rounded_sum:
  "getMemoryStats (mgr (exec evs (initial cap)))
     = mathRound (getCurrentMemoryUsage (mgr (exec evs (initial cap))) * 100) / 100"
  using consistent_exec [OF consistent_initial, of evs cap]
  by (simp only: statsConsistent_def)

theorem stats_rounded_sum_witness:
  "getCurrentMemoryUsage (mgr (exec evictionRun (initial 100))) = 60
   \<and> getMemoryStats (mgr (exec evictionRun (initial 100))) = 60"
proof -
  have "getCurrentMemoryUsage (mgr (exec evictionRun (initial 100))) = 60"
    by code_simp
  moreover have "mathRound (60 * 100) / 100 = 60"
    by code_simp
  ultimately show ?thesis
    using stats_rounded_sum [of evictionRun 100] by simp
qed

text \<open>
  C2 as stated fails once a size is not a multiple of 0.01 MB: after one model of
  12000 bytes is cached, the entries sum to 12000 / 1048576 MB and the statistics
  report 0.01 MB.
\<close>

theorem stats_not_exact_sum:
  "getCurrentMemoryUsage (mgr (exec smallLoadRun (initial 200))) = 12000 / 1048576
   \<and> getMemoryStats (mgr (exec smallLoadRun (initial 200))) = 1 / 100
   \<and> getMemoryStats (mgr (exec smallLoadRun (initial 200)))
       \<noteq> getCurrentMemoryUsage (mgr (exec smallLoadRun (initial 200)))"
proof -
  have a: "getCurrentMemoryUsage (mgr (exec smallLoadRun (initial 200))) = 12000 / 1048576"
    by code_simp
  have b: "getMemoryStats (mgr (exec smallLoadRun (initial 200))) = 1 / 100"
    by code_simp
  from a b show ?thesis by simp
qed

subsection \<open>One fetch per path\<close>
















lemma resident_idle:
  "pathInvariant p w \<Longrightarrow> map_of (loadedModels (mgr w)) p = Some c \<Longrightarrow> fetchesOf w p = []"
  by (auto simp: pathInvariant_def split: list.splits)














text \<open>
  The condition on observers is needed as well: an observer that requests the path being
  loaded runs inside \<open>ensureMemoryAvailable\<close>, before the promise of the outer request is
  stored, and both requests start a fetch.
\<close>

lemma reentrant_observer_fetches_twice:
  "inflight (exec reentrantRun (initial 100)) = [(3, ''d'', Low), (4, ''d'', Normal)]"
  by code_simp

end
